theory Spec2Isabelle
  imports Complex_Main
begin

section \<open>Ledger and settlement subsystem\<close>

text \<open>
  A shallow embedding of the price oracle (\<^verbatim>\<open>price-oracle.service.ts\<close>), the balance
  tracker (\<^verbatim>\<open>balance-tracker.service.ts\<close>), the deposit verifier
  (\<^verbatim>\<open>transaction-verifier.service.ts\<close>), the settlement service
  (\<^verbatim>\<open>settlement.service.ts\<close>) and the deposit route of \<^verbatim>\<open>token.routes.ts\<close>.

  Conventions of the embedding.
  \<^item> A JavaScript \<^verbatim>\<open>number\<close> that holds a token or USD amount is a \<^typ>\<open>real\<close> (the
    "decimal" of the data model): rounding of IEEE doubles and \<^verbatim>\<open>NaN\<close> are outside the
    model. Millisecond clock readings (\<^verbatim>\<open>Date.now()\<close>) are \<^typ>\<open>int\<close> and are passed to
    every operation that reads the clock.
  \<^item> A \<^verbatim>\<open>throw\<close> is the \<open>Inl\<close> branch of a sum; the state reached when the exception
    leaves the function is returned with it, since writes made before the throw stay.
  \<^item> A MongoDB collection is the list of its documents in insertion order.
\<close>

subsection \<open>Errors\<close>

text \<open>The exceptions caught and wrapped by \<^verbatim>\<open>executeOnChainSettlement\<close>.\<close>

datatype settlement_cause =
    TokenAddressFailed          \<comment> \<open>\<^verbatim>\<open>getAssociatedTokenAddress\<close> threw\<close>
  | BackendAccountNotFound      \<comment> \<open>'Backend token account not found or has no balance'\<close>
  | InsufficientBackendBalance real real  \<comment> \<open>'Insufficient balance. Need: .., Have: ..'\<close>
  | BlockhashFailed             \<comment> \<open>\<^verbatim>\<open>getLatestBlockhash\<close> threw\<close>
  | SendFailed string           \<comment> \<open>\<^verbatim>\<open>sendAndConfirmTransaction\<close> threw\<close>

datatype error =
    NoPriceData               \<comment> \<open>'No price data available for TWAP calculation'\<close>
  | InvalidTokenPrice         \<comment> \<open>'Invalid token price'\<close>
  | InsufficientBalance       \<comment> \<open>'Insufficient token balance'\<close>
  | ValidationError           \<comment> \<open>a schema validator rejected the document on save\<close>
  | WalletNotLoaded           \<comment> \<open>'Backend wallet not loaded. Cannot execute settlement.'\<close>
  | MintNotConfigured         \<comment> \<open>'TOKEN_MINT_ADDRESS not configured'\<close>
  | TreasuryNotConfigured     \<comment> \<open>'TREASURY_WALLET_ADDRESS not configured'\<close>
  | InvalidPublicKey          \<comment> \<open>thrown by \<^verbatim>\<open>new PublicKey(..)\<close>\<close>
  | SettlementFailed settlement_cause  \<comment> \<open>'Settlement failed: ' + message\<close>

subsection \<open>Price oracle\<close>

record sample =
  price :: real
  timestamp :: int

record PriceOracleService =
  priceCache :: "sample list"
  twapWindowMinutes :: int
  burnFloor :: real
  burnCeiling :: real

text \<open>The values the constructor takes when the environment sets none of them.\<close>

definition defaultOracle :: "sample list \<Rightarrow> PriceOracleService" where
  "defaultOracle cache =
     \<lparr>priceCache = cache, twapWindowMinutes = 10, burnFloor = 0.05, burnCeiling = 50\<rparr>"

definition windowMs :: "PriceOracleService \<Rightarrow> int" where
  "windowMs po = twapWindowMinutes po * 60 * 1000"

definition relevantPrices :: "PriceOracleService \<Rightarrow> int \<Rightarrow> sample list" where
  "relevantPrices po now = filter (\<lambda>entry. now - timestamp entry \<le> windowMs po) (priceCache po)"

definition getTWAPPrice :: "PriceOracleService \<Rightarrow> int \<Rightarrow> error + real" where
  "getTWAPPrice po now =
     (if length (priceCache po) = 0 then Inl NoPriceData
      else if length (relevantPrices po now) = 0
        then Inr (price (priceCache po ! (length (priceCache po) - 1)))
      else Inr (foldl (\<lambda>acc entry. acc + price entry) 0 (relevantPrices po now)
                / real (length (relevantPrices po now))))"

definition calculateTokenBurn :: "PriceOracleService \<Rightarrow> int \<Rightarrow> real \<Rightarrow> error + real" where
  "calculateTokenBurn po now usdCost =
     (case getTWAPPrice po now of
        Inl e \<Rightarrow> Inl e
      | Inr tokenPrice \<Rightarrow>
          if tokenPrice \<le> 0 then Inl InvalidTokenPrice
          else let rawBurn = usdCost / tokenPrice
               in Inr (max (burnFloor po) (min rawBurn (burnCeiling po))))"

subsection \<open>Ledger documents\<close>

text \<open>
  \<^verbatim>\<open>ITransaction\<close>, \<^verbatim>\<open>ITokenBalance\<close> and \<^verbatim>\<open>IUsageRecord\<close> of the two model files. The field
  \<^verbatim>\<open>type\<close> is \<open>txType\<close> here, \<^verbatim>\<open>timestamp\<close> of a ledger entry is \<open>txTimestamp\<close>, and the
  fields of a usage record that share a name with another document carry the prefix
  \<open>r\<close>; \<open>rid\<close> is the document's \<^verbatim>\<open>_id\<close>.
\<close>

datatype transaction_type = deposit | usage | settlement

datatype request_type = chat | voice

record ITransaction =
  txType :: transaction_type
  amount :: real
  txHash :: "string option"
  txTimestamp :: int
  metadata :: "(request_type \<times> real) option"

record ITokenBalance =
  walletAddress :: string
  depositedAmount :: real
  consumedAmount :: real
  currentBalance :: real
  lastUpdated :: int
  transactions :: "ITransaction list"

record IUsageRecord =
  rid :: nat
  rWalletAddress :: string
  requestType :: request_type
  usdCost :: real
  tokenPrice :: real
  tokensBurned :: real
  rTimestamp :: int
  settled :: bool
  rTxHash :: "string option"

text \<open>
  The state the services share: the two collections, the price oracle singleton, the
  settlement service's \<^verbatim>\<open>isSettling\<close> flag, and the settlement transactions that
  \<^verbatim>\<open>sendAndConfirmTransaction\<close> has confirmed so far (signature, instructions in base units).
\<close>

datatype tokenInstruction =
    BurnChecked int nat          \<comment> \<open>amount in base units, decimals\<close>
  | TransferChecked int nat      \<comment> \<open>amount in base units, decimals\<close>

record system =
  tokenBalances :: "ITokenBalance list"
  usageRecords :: "IUsageRecord list"
  priceOracle :: PriceOracleService
  isSettling :: bool
  confirmed :: "(string \<times> tokenInstruction list) list"

definition initialSystem :: "PriceOracleService \<Rightarrow> system" where
  "initialSystem po =
     \<lparr>tokenBalances = [], usageRecords = [], priceOracle = po, isSettling = False,
      confirmed = []\<rparr>"

subsection \<open>Persistence\<close>

text \<open>
  \<^verbatim>\<open>save()\<close> and \<^verbatim>\<open>create()\<close> run the validators the schemas declare and reject the
  document when one fails: \<^verbatim>\<open>required: true\<close> on a string refuses the empty string,
  \<^verbatim>\<open>min: 0\<close> refuses a negative number. A rejected document is not written.
  \<^verbatim>\<open>walletAddress\<close> carries a unique index, so a saved balance replaces the document
  with its address; the \<^verbatim>\<open>pre('save')\<close> hook stamps \<^verbatim>\<open>lastUpdated\<close>.
\<close>

definition validTokenBalance :: "ITokenBalance \<Rightarrow> bool" where
  "validTokenBalance b \<longleftrightarrow>
     walletAddress b \<noteq> [] \<and> 0 \<le> depositedAmount b \<and> 0 \<le> consumedAmount b \<and>
     0 \<le> currentBalance b"

definition validUsageRecord :: "IUsageRecord \<Rightarrow> bool" where
  "validUsageRecord r \<longleftrightarrow>
     rWalletAddress r \<noteq> [] \<and> 0 \<le> usdCost r \<and> 0 \<le> tokenPrice r \<and> 0 \<le> tokensBurned r"

fun replaceBalance :: "ITokenBalance \<Rightarrow> ITokenBalance list \<Rightarrow> ITokenBalance list" where
  "replaceBalance b [] = [b]"
| "replaceBalance b (x # xs) =
     (if walletAddress x = walletAddress b then b # xs else x # replaceBalance b xs)"

definition saveBalance :: "system \<Rightarrow> int \<Rightarrow> ITokenBalance \<Rightarrow> error + ITokenBalance \<times> system" where
  "saveBalance s now b =
     (if validTokenBalance b
      then let b' = b\<lparr>lastUpdated := now\<rparr>
           in Inr (b', s\<lparr>tokenBalances := replaceBalance b' (tokenBalances s)\<rparr>)
      else Inl ValidationError)"

definition freshId :: "IUsageRecord list \<Rightarrow> nat" where
  "freshId rs = fold (\<lambda>r m. max (Suc (rid r)) m) rs 0"

definition createUsageRecord ::
  "system \<Rightarrow> int \<Rightarrow> string \<Rightarrow> request_type \<Rightarrow> real \<Rightarrow> real \<Rightarrow> real \<Rightarrow> error + system" where
  "createUsageRecord s now w rt usd tprice burned =
     (let r = \<lparr>rid = freshId (usageRecords s), rWalletAddress = w, requestType = rt,
               usdCost = usd, tokenPrice = tprice, tokensBurned = burned, rTimestamp = now,
               settled = False, rTxHash = None\<rparr>
      in if validUsageRecord r then Inr (s\<lparr>usageRecords := usageRecords s @ [r]\<rparr>)
         else Inl ValidationError)"

subsection \<open>Balance tracker\<close>

definition findOne :: "system \<Rightarrow> string \<Rightarrow> ITokenBalance option" where
  "findOne s w = find (\<lambda>b. walletAddress b = w) (tokenBalances s)"

definition getBalance :: "system \<Rightarrow> int \<Rightarrow> string \<Rightarrow> (error + ITokenBalance) \<times> system" where
  "getBalance s now w =
     (case findOne s w of
        Some balance \<Rightarrow> (Inr balance, s)
      | None \<Rightarrow>
          (case saveBalance s now
                  \<lparr>walletAddress = w, depositedAmount = 0, consumedAmount = 0,
                   currentBalance = 0, lastUpdated = now, transactions = []\<rparr> of
             Inl e \<Rightarrow> (Inl e, s)
           | Inr (balance, s') \<Rightarrow> (Inr balance, s')))"

definition recordDeposit ::
  "system \<Rightarrow> int \<Rightarrow> string \<Rightarrow> real \<Rightarrow> string \<Rightarrow> (error + ITokenBalance) \<times> system" where
  "recordDeposit s now w amt h =
     (case getBalance s now w of
        (Inl e, s1) \<Rightarrow> (Inl e, s1)
      | (Inr balance, s1) \<Rightarrow>
          (case saveBalance s1 now
                  (balance\<lparr>depositedAmount := depositedAmount balance + amt,
                           currentBalance := currentBalance balance + amt,
                           transactions := transactions balance @
                             [\<lparr>txType = deposit, amount = amt, txHash = Some h,
                               txTimestamp = now, metadata = None\<rparr>]\<rparr>) of
             Inl e \<Rightarrow> (Inl e, s1)
           | Inr (balance', s2) \<Rightarrow> (Inr balance', s2)))"

definition deductTokens ::
  "system \<Rightarrow> int \<Rightarrow> string \<Rightarrow> real \<Rightarrow> request_type \<Rightarrow> real \<Rightarrow> (error + ITokenBalance) \<times> system" where
  "deductTokens s now w amt rt usd =
     (case getBalance s now w of
        (Inl e, s1) \<Rightarrow> (Inl e, s1)
      | (Inr balance, s1) \<Rightarrow>
          if currentBalance balance < amt then (Inl InsufficientBalance, s1)
          else
            (case saveBalance s1 now
                    (balance\<lparr>consumedAmount := consumedAmount balance + amt,
                             currentBalance := currentBalance balance - amt,
                             transactions := transactions balance @
                               [\<lparr>txType = usage, amount = - amt, txHash = None,
                                 txTimestamp = now, metadata = Some (rt, usd)\<rparr>]\<rparr>) of
               Inl e \<Rightarrow> (Inl e, s1)
             | Inr (balance', s2) \<Rightarrow>
                 (case getTWAPPrice (priceOracle s2) now of
                    Inl e \<Rightarrow> (Inl e, s2)
                  | Inr tprice \<Rightarrow>
                      (case createUsageRecord s2 now w rt usd tprice amt of
                         Inl e \<Rightarrow> (Inl e, s2)
                       | Inr s3 \<Rightarrow> (Inr balance', s3)))))"

definition hasSufficientBalance :: "system \<Rightarrow> int \<Rightarrow> string \<Rightarrow> real \<Rightarrow> (error + bool) \<times> system" where
  "hasSufficientBalance s now w requiredAmount =
     (case getBalance s now w of
        (Inl e, s1) \<Rightarrow> (Inl e, s1)
      | (Inr balance, s1) \<Rightarrow> (Inr (currentBalance balance \<ge> requiredAmount), s1))"

text \<open>
  \<^verbatim>\<open>find({settled: false}).sort({timestamp: 1}).limit(limit)\<close>: the unsettled records,
  oldest first, at most \<open>limit\<close> of them. Records with one timestamp keep their insertion
  order.
\<close>

definition getUnsettledRecords :: "system \<Rightarrow> nat \<Rightarrow> IUsageRecord list" where
  "getUnsettledRecords s limit =
     take limit (sort_key rTimestamp (filter (\<lambda>r. \<not> settled r) (usageRecords s)))"

text \<open>\<^verbatim>\<open>updateMany({_id: {$in: recordIds}}, {$set: {settled: true, txHash}})\<close>.\<close>

definition markAsSettled :: "system \<Rightarrow> nat list \<Rightarrow> string \<Rightarrow> system" where
  "markAsSettled s recordIds h =
     s\<lparr>usageRecords :=
         map (\<lambda>r. if rid r \<in> set recordIds then r\<lparr>settled := True, rTxHash := Some h\<rparr> else r)
           (usageRecords s)\<rparr>"




definition currentOf :: "system \<Rightarrow> string \<Rightarrow> real" where
  "currentOf s w = (case findOne s w of Some b \<Rightarrow> currentBalance b | None \<Rightarrow> 0)"

definition depositedOf :: "system \<Rightarrow> string \<Rightarrow> real" where
  "depositedOf s w = (case findOne s w of Some b \<Rightarrow> depositedAmount b | None \<Rightarrow> 0)"

text \<open>What a caller sees of a wallet: the three amounts and the log, zero and empty when
  the wallet has no document yet.\<close>

definition walletView :: "system \<Rightarrow> string \<Rightarrow> real \<times> real \<times> real \<times> ITransaction list" where
  "walletView s w =
     (case findOne s w of
        Some b \<Rightarrow> (depositedAmount b, consumedAmount b, currentBalance b, transactions b)
      | None \<Rightarrow> (0, 0, 0, []))"



subsection \<open>The chain as the services see it\<close>

text \<open>
  What the RPC endpoint and the Solana libraries answer is a parameter of every operation
  that talks to the chain. A parsed token instruction carries its \<^verbatim>\<open>info\<close> object with
  the fields the verifier reads; a field that is absent is \<open>None\<close>. Amounts in
  \<^verbatim>\<open>info.amount\<close> and \<^verbatim>\<open>tokenAmount.amount\<close> are the decimal strings of the RPC, held as
  the number they denote (a non-empty string is truthy, \<^verbatim>\<open>"0"\<close> too).

  Names that differ from the source: \<^verbatim>\<open>info.to\<close> is \<open>toAccount\<close>, \<^verbatim>\<open>info.amount\<close> is
  \<open>infoAmount\<close>, \<^verbatim>\<open>info.owner\<close> is \<open>infoOwner\<close>, \<^verbatim>\<open>parsed.type\<close> is \<open>parsedType\<close>, the
  \<^verbatim>\<open>mint\<close> of a token balance is \<open>balanceMint\<close>, its \<^verbatim>\<open>uiTokenAmount.uiAmount\<close> is
  \<open>uiAmount\<close>, and the \<^verbatim>\<open>error\<close> of the verifier's result is \<open>verror\<close>.
\<close>

record tokenAmountInfo =
  taAmount :: nat
  taDecimals :: nat

record parsedInfo =
  destination :: "string option"
  toAccount :: "string option"
  infoAmount :: "nat option"
  tokenAmount :: "tokenAmountInfo option"
  mint :: "string option"
  mintAccount :: "string option"
  authority :: "string option"
  infoOwner :: "string option"
  source :: "string option"

record parsedData =
  parsedType :: string
  info :: parsedInfo

record parsedInstruction =
  programId :: string
  parsed :: "parsedData option"

record tokenBalanceEntry =
  accountIndex :: nat
  owner :: "string option"
  balanceMint :: "string option"
  uiAmount :: "real option"

record transactionMeta =
  err :: "string option"
  preTokenBalances :: "tokenBalanceEntry list option"
  postTokenBalances :: "tokenBalanceEntry list option"

record parsedTransaction =
  meta :: "transactionMeta option"
  instructions :: "parsedInstruction list"

datatype rpc_result =
    RpcThrows string                 \<comment> \<open>the connection or the request threw\<close>
  | RpcNull                          \<comment> \<open>no such transaction\<close>
  | RpcTransaction parsedTransaction

datatype mint_info =
    MintInfoThrows
  | MintInfoUnparsed
  | MintInfoDecimals nat

record chain =
  getParsedTransaction :: "string \<Rightarrow> rpc_result"
  validPublicKey :: "string \<Rightarrow> bool"
  getAssociatedTokenAddress :: "string \<Rightarrow> string \<Rightarrow> string option"
  getParsedAccountInfo :: "string \<Rightarrow> mint_info"
  getAccount :: "string \<Rightarrow> nat option"
  getLatestBlockhash :: "string option"
  sendAndConfirmTransaction :: "tokenInstruction list \<Rightarrow> string + string"

subsection \<open>Deposit transaction verifier\<close>

definition TOKEN_PROGRAM_ID :: string where
  "TOKEN_PROGRAM_ID = ''TokenkegQfeZyiNwAJbNbGKPFXCWuBvf9Ss623VQ5DA''"

text \<open>JavaScript truthiness of an optional string, \<^verbatim>\<open>a || b\<close> and \<^verbatim>\<open>a ?? b\<close>.\<close>

definition truthy :: "string option \<Rightarrow> bool" where
  "truthy a = (case a of None \<Rightarrow> False | Some v \<Rightarrow> v \<noteq> [])"

definition orElse :: "string option \<Rightarrow> string option \<Rightarrow> string option" where
  "orElse a b = (if truthy a then a else b)"

definition nullish :: "string option \<Rightarrow> string option \<Rightarrow> string option" where
  "nullish a b = (case a of None \<Rightarrow> b | Some v \<Rightarrow> Some v)"

record transferFound =
  foundAmount :: real
  tokenMint :: "string option"
  transferAuthority :: "string option"

definition parsedTransferAmount :: "parsedInfo \<Rightarrow> real" where
  "parsedTransferAmount i =
     (let raw = (case infoAmount i of
                   Some n \<Rightarrow> n
                 | None \<Rightarrow> (case tokenAmount i of Some ta \<Rightarrow> taAmount ta | None \<Rightarrow> 0));
          decimals = (case tokenAmount i of
                        Some ta \<Rightarrow> if taDecimals ta = 0 then 9 else taDecimals ta
                      | None \<Rightarrow> 9)
      in real raw / 10 ^ decimals)"

fun findParsedTransfer :: "string \<Rightarrow> parsedInstruction list \<Rightarrow> transferFound option" where
  "findParsedTransfer recipient [] = None"
| "findParsedTransfer recipient (instruction # rest) =
     (if programId instruction = TOKEN_PROGRAM_ID then
        (case parsed instruction of
           Some p \<Rightarrow>
             if parsedType p = ''transfer'' \<or> parsedType p = ''transferChecked'' then
               if orElse (destination (info p)) (toAccount (info p)) = Some recipient then
                 Some \<lparr>foundAmount = parsedTransferAmount (info p),
                       tokenMint = (if truthy (orElse (mint (info p)) (mintAccount (info p)))
                                    then orElse (mint (info p)) (mintAccount (info p)) else None),
                       transferAuthority =
                         nullish (authority (info p)) (nullish (infoOwner (info p)) (source (info p)))\<rparr>
               else findParsedTransfer recipient rest
             else findParsedTransfer recipient rest
         | None \<Rightarrow> findParsedTransfer recipient rest)
      else findParsedTransfer recipient rest)"

definition uiAmountOrZero :: "real option \<Rightarrow> real" where
  "uiAmountOrZero a = (case a of None \<Rightarrow> 0 | Some v \<Rightarrow> v)"

definition preBalanceOf :: "tokenBalanceEntry list option \<Rightarrow> nat \<Rightarrow> real" where
  "preBalanceOf pre idx =
     (case pre of
        None \<Rightarrow> 0
      | Some bs \<Rightarrow>
          (case find (\<lambda>b. accountIndex b = idx) bs of
             None \<Rightarrow> 0
           | Some b \<Rightarrow> uiAmountOrZero (uiAmount b)))"

fun findBalanceTransfer ::
  "string \<Rightarrow> tokenBalanceEntry list option \<Rightarrow> tokenBalanceEntry list \<Rightarrow> transferFound option" where
  "findBalanceTransfer recipient pre [] = None"
| "findBalanceTransfer recipient pre (balance # rest) =
     (if owner balance = Some recipient then
        Some \<lparr>foundAmount = uiAmountOrZero (uiAmount balance) - preBalanceOf pre (accountIndex balance),
              tokenMint = (if truthy (balanceMint balance) then balanceMint balance else None),
              transferAuthority = None\<rparr>
      else findBalanceTransfer recipient pre rest)"

text \<open>The two searches in the order the verifier makes them.\<close>

definition findTransfer :: "string \<Rightarrow> parsedTransaction \<Rightarrow> transferFound option" where
  "findTransfer recipient tx =
     (case findParsedTransfer recipient (instructions tx) of
        Some f \<Rightarrow> Some f
      | None \<Rightarrow>
          (case meta tx of
             None \<Rightarrow> None
           | Some m \<Rightarrow>
               (case postTokenBalances m of
                  None \<Rightarrow> None
                | Some post \<Rightarrow> findBalanceTransfer recipient (preTokenBalances m) post)))"

datatype verify_error =
    TransactionNotFound                         \<comment> \<open>'Transaction not found on blockchain'\<close>
  | TransactionFailed string                    \<comment> \<open>'Transaction failed: ' + err\<close>
  | NoTokenTransferFound                        \<comment> \<open>'No token transfer found to recipient ..'\<close>
  | SenderUndetermined                          \<comment> \<open>'Could not determine transfer sender ..'\<close>
  | SenderMismatch string "string option"       \<comment> \<open>'Transfer sender mismatch. Expected .., Got ..'\<close>
  | MintMismatch string "string option"         \<comment> \<open>'Token mint mismatch. Expected .., Got ..'\<close>
  | AmountMismatch real real                    \<comment> \<open>'Amount mismatch. Expected .., Got ..'\<close>
  | VerificationFailed string                   \<comment> \<open>'Verification failed: ' + message\<close>

record verification =
  isValid :: bool
  actualAmount :: "real option"
  verror :: "verify_error option"

definition invalid :: "verify_error \<Rightarrow> verification" where
  "invalid e = \<lparr>isValid = False, actualAmount = None, verror = Some e\<rparr>"

definition tolerance :: real where
  "tolerance = 0.0001"

definition supplied :: "string option \<Rightarrow> string option" where
  "supplied a = (if truthy a then a else None)"

definition executionError :: "parsedTransaction \<Rightarrow> string option" where
  "executionError tx = (case meta tx of None \<Rightarrow> None | Some m \<Rightarrow> supplied (err m))"

text \<open>
  The checks made on the transfer that was found: sender (treasury deposit mode), mint,
  amount, in this order; each only when the caller supplied the expected value.
\<close>

definition checkTransfer ::
  "transferFound \<Rightarrow> real option \<Rightarrow> string option \<Rightarrow> string option \<Rightarrow> verification" where
  "checkTransfer f expectedAmount expectedTokenMint expectedSender =
     (case (case supplied expectedSender of
              None \<Rightarrow> None
            | Some sender \<Rightarrow>
                if \<not> truthy (transferAuthority f) then Some SenderUndetermined
                else if transferAuthority f \<noteq> Some sender
                  then Some (SenderMismatch sender (transferAuthority f))
                else None) of
        Some e \<Rightarrow> invalid e
      | None \<Rightarrow>
          (case (case supplied expectedTokenMint of
                   None \<Rightarrow> None
                 | Some m \<Rightarrow>
                     if tokenMint f \<noteq> Some m then Some (MintMismatch m (tokenMint f)) else None) of
             Some e \<Rightarrow> invalid e
           | None \<Rightarrow>
               (case expectedAmount of
                  Some expected \<Rightarrow>
                    if \<bar>foundAmount f - expected\<bar> > tolerance
                      then invalid (AmountMismatch expected (foundAmount f))
                    else \<lparr>isValid = True, actualAmount = Some (foundAmount f), verror = None\<rparr>
                | None \<Rightarrow>
                    \<lparr>isValid = True, actualAmount = Some (foundAmount f), verror = None\<rparr>)))"

text \<open>
  The body of the \<^verbatim>\<open>try\<close> block; \<open>Inl\<close> is an exception thrown inside it, with its
  message: the RPC request failed, or \<^verbatim>\<open>new PublicKey(expectedRecipient)\<close> refused the
  address. An accepted address prints as the string it was made from.
\<close>

definition verifyBody ::
  "chain \<Rightarrow> string \<Rightarrow> string \<Rightarrow> real option \<Rightarrow> string option \<Rightarrow> string option
     \<Rightarrow> string + verification" where
  "verifyBody ch h expectedRecipient expectedAmount expectedTokenMint expectedSender =
     (case getParsedTransaction ch h of
        RpcThrows msg \<Rightarrow> Inl msg
      | RpcNull \<Rightarrow> Inr (invalid TransactionNotFound)
      | RpcTransaction tx \<Rightarrow>
          (case executionError tx of
             Some e \<Rightarrow> Inr (invalid (TransactionFailed e))
           | None \<Rightarrow>
               if \<not> validPublicKey ch expectedRecipient then Inl ''Invalid public key input''
               else
                 (case findTransfer expectedRecipient tx of
                    None \<Rightarrow> Inr (invalid NoTokenTransferFound)
                  | Some f \<Rightarrow>
                      Inr (checkTransfer f expectedAmount expectedTokenMint expectedSender))))"

definition verifyDepositTransaction ::
  "chain \<Rightarrow> string \<Rightarrow> string \<Rightarrow> real option \<Rightarrow> string option \<Rightarrow> string option
     \<Rightarrow> verification" where
  "verifyDepositTransaction ch h expectedRecipient expectedAmount expectedTokenMint expectedSender =
     (case verifyBody ch h expectedRecipient expectedAmount expectedTokenMint expectedSender of
        Inl msg \<Rightarrow> invalid (VerificationFailed msg)
      | Inr r \<Rightarrow> r)"

subsection \<open>Deposit route\<close>

text \<open>
  \<^verbatim>\<open>POST /api/token/deposit\<close> of \<^verbatim>\<open>token.routes.ts\<close>. A field of the request body that
  is missing is \<open>None\<close>; \<^verbatim>\<open>!amount\<close> also holds of the number 0 and \<^verbatim>\<open>!walletAddress\<close>,
  \<^verbatim>\<open>!txHash\<close> of the empty string. \<open>envMint\<close> is \<^verbatim>\<open>process.env.TOKEN_MINT_ADDRESS\<close>.
\<close>

record depositBody =
  bodyWalletAddress :: "string option"
  bodyAmount :: "real option"
  bodyTxHash :: "string option"

datatype response =
    MissingFields                               \<comment> \<open>400 'Missing required fields: ..'\<close>
  | VerificationRejected "verify_error option"  \<comment> \<open>400 'Transaction verification failed'\<close>
  | AlreadyProcessed string                     \<comment> \<open>400 'Transaction has already been processed'\<close>
  | Success real real                           \<comment> \<open>200 with currentBalance, depositedAmount\<close>
  | FailedToRecord                              \<comment> \<open>500 'Failed to record deposit'\<close>

text \<open>\<^verbatim>\<open>TokenBalance.findOne({'transactions.txHash': txHash})\<close> finds a document.\<close>

definition existingTransaction :: "system \<Rightarrow> string \<Rightarrow> bool" where
  "existingTransaction s h =
     list_ex (\<lambda>b. list_ex (\<lambda>t. txHash t = Some h) (transactions b)) (tokenBalances s)"

text \<open>\<^verbatim>\<open>verification.actualAmount || parseFloat(amount)\<close>.\<close>

definition verifiedAmount :: "verification \<Rightarrow> real \<Rightarrow> real" where
  "verifiedAmount v amt = (case actualAmount v of Some a \<Rightarrow> if a = 0 then amt else a | None \<Rightarrow> amt)"

definition depositRoute ::
  "chain \<Rightarrow> string option \<Rightarrow> system \<Rightarrow> int \<Rightarrow> depositBody \<Rightarrow> response \<times> system" where
  "depositRoute ch envMint s now body =
     (case (supplied (bodyWalletAddress body), bodyAmount body, supplied (bodyTxHash body)) of
        (Some w, Some amt, Some h) \<Rightarrow>
          if amt = 0 then (MissingFields, s)
          else
            (let v = verifyDepositTransaction ch h w (Some amt) envMint None
             in if \<not> isValid v then (VerificationRejected (verror v), s)
                else if existingTransaction s h then (AlreadyProcessed h, s)
                else
                  (case recordDeposit s now w (verifiedAmount v amt) h of
                     (Inl e, s') \<Rightarrow> (FailedToRecord, s')
                   | (Inr balance, s') \<Rightarrow>
                       (Success (currentBalance balance) (depositedAmount balance), s')))
      | _ \<Rightarrow> (MissingFields, s))"

subsection \<open>Settlement service\<close>

text \<open>
  The configuration the constructor reads; \<open>backendWallet\<close> is the public key of the
  keypair that was loaded, \<open>None\<close> when loading failed.
\<close>

record SettlementService =
  tokenMintAddress :: string
  treasuryWalletAddress :: string
  backendWallet :: "string option"

definition mintDecimals :: "chain \<Rightarrow> string \<Rightarrow> nat" where
  "mintDecimals ch mintAddress =
     (case getParsedAccountInfo ch mintAddress of
        MintInfoDecimals d \<Rightarrow> if d = 0 then 9 else d
      | _ \<Rightarrow> 9)"

definition settlementInstructions :: "real \<Rightarrow> real \<Rightarrow> nat \<Rightarrow> tokenInstruction list" where
  "settlementInstructions burnAmount treasuryAmount tokenDecimals =
     (if burnAmount > 0 then [BurnChecked \<lfloor>burnAmount * 10 ^ tokenDecimals\<rfloor> tokenDecimals] else []) @
     (if treasuryAmount > 0
        then [TransferChecked \<lfloor>treasuryAmount * 10 ^ tokenDecimals\<rfloor> tokenDecimals] else [])"

text \<open>
  The inner \<^verbatim>\<open>try\<close> block of \<^verbatim>\<open>executeOnChainSettlement\<close>; what it throws is wrapped
  as \<^const>\<open>SettlementFailed\<close> by the \<^verbatim>\<open>catch\<close>.
\<close>

definition onChainBody ::
  "SettlementService \<Rightarrow> chain \<Rightarrow> string \<Rightarrow> real \<Rightarrow> real
     \<Rightarrow> settlement_cause + string \<times> tokenInstruction list" where
  "onChainBody svc ch backendPublicKey burnAmount treasuryAmount =
     (case getAssociatedTokenAddress ch (tokenMintAddress svc) backendPublicKey of
        None \<Rightarrow> Inl TokenAddressFailed
      | Some backendTokenAccount \<Rightarrow>
          (case getAssociatedTokenAddress ch (tokenMintAddress svc) (treasuryWalletAddress svc) of
             None \<Rightarrow> Inl TokenAddressFailed
           | Some treasuryTokenAccount \<Rightarrow>
               (let tokenDecimals = mintDecimals ch (tokenMintAddress svc)
                in case getAccount ch backendTokenAccount of
                     None \<Rightarrow> Inl BackendAccountNotFound
                   | Some accountAmount \<Rightarrow>
                       (let backendBalance = real accountAmount / 10 ^ tokenDecimals;
                            totalNeeded = burnAmount + treasuryAmount
                        in if backendBalance < totalNeeded
                             then Inl (InsufficientBackendBalance totalNeeded backendBalance)
                           else
                             (let transaction =
                                    settlementInstructions burnAmount treasuryAmount tokenDecimals
                              in case getLatestBlockhash ch of
                                   None \<Rightarrow> Inl BlockhashFailed
                                 | Some blockhash \<Rightarrow>
                                     (case sendAndConfirmTransaction ch transaction of
                                        Inl msg \<Rightarrow> Inl (SendFailed msg)
                                      | Inr signature \<Rightarrow> Inr (signature, transaction)))))))"

definition executeOnChainSettlement ::
  "SettlementService \<Rightarrow> chain \<Rightarrow> real \<Rightarrow> real \<Rightarrow> error + string \<times> tokenInstruction list" where
  "executeOnChainSettlement svc ch burnAmount treasuryAmount =
     (case backendWallet svc of
        None \<Rightarrow> Inl WalletNotLoaded
      | Some backendPublicKey \<Rightarrow>
          if tokenMintAddress svc = [] then Inl MintNotConfigured
          else if treasuryWalletAddress svc = [] then Inl TreasuryNotConfigured
          else if \<not> validPublicKey ch (tokenMintAddress svc) then Inl InvalidPublicKey
          else if \<not> validPublicKey ch (treasuryWalletAddress svc) then Inl InvalidPublicKey
          else
            (case onChainBody svc ch backendPublicKey burnAmount treasuryAmount of
               Inl cause \<Rightarrow> Inl (SettlementFailed cause)
             | Inr r \<Rightarrow> Inr r))"

definition totalTokens :: "IUsageRecord list \<Rightarrow> real" where
  "totalTokens records = foldl (\<lambda>sum record. sum + tokensBurned record) 0 records"

text \<open>
  The \<^verbatim>\<open>try\<close> block of \<^verbatim>\<open>executeBatchSettlement\<close>, entered with the flag set. A
  confirmed transaction is appended to \<^const>\<open>confirmed\<close>.
\<close>

definition settlementRun :: "SettlementService \<Rightarrow> chain \<Rightarrow> system \<Rightarrow> (error + unit) \<times> system" where
  "settlementRun svc ch s =
     (let unsettledRecords = getUnsettledRecords s 100
      in if length unsettledRecords = 0 then (Inr (), s)
         else
           (let burnAmount = totalTokens unsettledRecords / 2;
                treasuryAmount = totalTokens unsettledRecords / 2
            in case executeOnChainSettlement svc ch burnAmount treasuryAmount of
                 Inl e \<Rightarrow> (Inl e, s)
               | Inr (h, transaction) \<Rightarrow>
                   (Inr (),
                    markAsSettled (s\<lparr>confirmed := confirmed s @ [(h, transaction)]\<rparr>)
                      (map rid unsettledRecords) h)))"

text \<open>The guard, the run, and the \<^verbatim>\<open>finally\<close> that clears the flag.\<close>

definition executeBatchSettlement ::
  "SettlementService \<Rightarrow> chain \<Rightarrow> system \<Rightarrow> (error + unit) \<times> system" where
  "executeBatchSettlement svc ch s =
     (if isSettling s then (Inr (), s)
      else case settlementRun svc ch (s\<lparr>isSettling := True\<rparr>) of
             (r, s') \<Rightarrow> (r, s'\<lparr>isSettling := False\<rparr>))"

definition checkAndSettleIfNeeded ::
  "SettlementService \<Rightarrow> chain \<Rightarrow> system \<Rightarrow> real \<Rightarrow> (error + bool) \<times> system" where
  "checkAndSettleIfNeeded svc ch s threshold =
     (let pendingAmount = totalTokens (getUnsettledRecords s 1000)
      in if pendingAmount \<ge> threshold then
           (case executeBatchSettlement svc ch s of
              (Inl e, s') \<Rightarrow> (Inl e, s')
            | (Inr u, s') \<Rightarrow> (Inr True, s'))
         else (Inr False, s))"

subsection \<open>Example data\<close>


definition exampleOracle :: PriceOracleService where
  "exampleOracle = defaultOracle [\<lparr>price = 1/10, timestamp = 0\<rparr>]"


definition exampleTransfer :: parsedTransaction where
  "exampleTransfer =
     \<lparr>meta = Some \<lparr>err = None, preTokenBalances = None, postTokenBalances = None\<rparr>,
      instructions =
        [\<lparr>programId = TOKEN_PROGRAM_ID,
          parsed = Some \<lparr>parsedType = ''transferChecked'',
            info = \<lparr>destination = Some ''W'', toAccount = None, infoAmount = None,
                    tokenAmount = Some \<lparr>taAmount = 10000000000, taDecimals = 9\<rparr>,
                    mint = Some ''MINT'', mintAccount = None, authority = Some ''U'',
                    infoOwner = None, source = Some ''SRC''\<rparr>\<rparr>\<rparr>]\<rparr>"

definition exampleChain :: chain where
  "exampleChain =
     \<lparr>getParsedTransaction = (\<lambda>h. if h = ''T1'' then RpcTransaction exampleTransfer else RpcNull),
      validPublicKey = (\<lambda>k. k \<noteq> []),
      getAssociatedTokenAddress = (\<lambda>m k. Some (k @ ''-ata'')),
      getParsedAccountInfo = (\<lambda>m. MintInfoDecimals 9),
      getAccount = (\<lambda>a. Some 1000000000000),
      getLatestBlockhash = Some ''blockhash'',
      sendAndConfirmTransaction = (\<lambda>t. Inr ''SIG1'')\<rparr>"

definition exampleBody :: depositBody where
  "exampleBody = \<lparr>bodyWalletAddress = Some ''W'', bodyAmount = Some 10, bodyTxHash = Some ''T1''\<rparr>"

text \<open>The ledger after wallet \<open>W\<close> was credited 10 tokens for transaction \<open>T1\<close> at time 1.\<close>

definition depositedState :: system where
  "depositedState =
     \<lparr>tokenBalances =
        [\<lparr>walletAddress = ''W'', depositedAmount = 10, consumedAmount = 0, currentBalance = 10,
          lastUpdated = 1,
          transactions = [\<lparr>txType = deposit, amount = 10, txHash = Some ''T1'',
                           txTimestamp = 1, metadata = None\<rparr>]\<rparr>],
      usageRecords = [], priceOracle = exampleOracle, isSettling = False, confirmed = []\<rparr>"

text \<open>The same ledger while the price oracle has not yet cached any price.\<close>

definition noPriceState :: system where
  "noPriceState = depositedState\<lparr>priceOracle := defaultOracle []\<rparr>"

definition exampleService :: SettlementService where
  "exampleService =
     \<lparr>tokenMintAddress = ''MINT'', treasuryWalletAddress = ''TREASURY'',
      backendWallet = Some ''BACKEND''\<rparr>"

definition exampleRecord :: "nat \<Rightarrow> real \<Rightarrow> int \<Rightarrow> IUsageRecord" where
  "exampleRecord i burned t =
     \<lparr>rid = i, rWalletAddress = ''W'', requestType = chat, usdCost = burned / 10,
      tokenPrice = 1/10, tokensBurned = burned, rTimestamp = t, settled = False,
      rTxHash = None\<rparr>"

text \<open>Two unsettled records of 50 tokens each, and nothing else.\<close>

definition pendingState :: system where
  "pendingState =
     \<lparr>tokenBalances = [], usageRecords = [exampleRecord 0 50 2, exampleRecord 1 50 3],
      priceOracle = exampleOracle, isSettling = False, confirmed = []\<rparr>"


text \<open>1001 unsettled records of one token each.\<close>

definition manyState :: system where
  "manyState = pendingState\<lparr>usageRecords := map (\<lambda>i. exampleRecord i 1 2) [0..<1001]\<rparr>"

text \<open>A chain whose RPC endpoint refuses every request.\<close>

definition throwingChain :: chain where
  "throwingChain = exampleChain\<lparr>getParsedTransaction := (\<lambda>h. RpcThrows ''429 Too Many Requests'')\<rparr>"

subsection \<open>Facts about the price oracle\<close>





text \<open>
  C6. With a positive TWAP price \<open>p\<close>, \<^const>\<open>calculateTokenBurn\<close> returns \<open>usd / p\<close>
  clamped by \<open>max burnFloor (min _ burnCeiling)\<close>; the result is never below the floor,
  never above the ceiling when the floor does not exceed the ceiling (0.05 and 50 by
  default), and does not decrease when \<open>usd\<close> grows.
\<close>

theorem calculateTokenBurn_clamped:
  assumes "getTWAPPrice po now = Inr p" and "0 < p"
  shows "calculateTokenBurn po now usd =
           Inr (max (burnFloor po) (min (usd / p) (burnCeiling po))) \<and>
         burnFloor po \<le> max (burnFloor po) (min (usd / p) (burnCeiling po)) \<and>
         (burnFloor po \<le> burnCeiling po \<longrightarrow>
            max (burnFloor po) (min (usd / p) (burnCeiling po)) \<le> burnCeiling po) \<and>
         (\<forall>usd' b b'. usd \<le> usd' \<and> calculateTokenBurn po now usd = Inr b \<and>
              calculateTokenBurn po now usd' = Inr b' \<longrightarrow> b \<le> b')"
proof (intro conjI allI impI)
  show eq: "calculateTokenBurn po now usd =
           Inr (max (burnFloor po) (min (usd / p) (burnCeiling po)))" for usd
    using assms by (simp add: calculateTokenBurn_def)
  show "burnFloor po \<le> max (burnFloor po) (min (usd / p) (burnCeiling po))"
    by simp
  show "max (burnFloor po) (min (usd / p) (burnCeiling po)) \<le> burnCeiling po"
    if "burnFloor po \<le> burnCeiling po"
    using that by simp
  fix usd' b b'
  assume h: "usd \<le> usd' \<and> calculateTokenBurn po now usd = Inr b \<and>
              calculateTokenBurn po now usd' = Inr b'"
  then have "usd / p \<le> usd' / p"
    using assms(2) by (simp add: divide_right_mono)
  moreover have "b = max (burnFloor po) (min (usd / p) (burnCeiling po))"
    and "b' = max (burnFloor po) (min (usd' / p) (burnCeiling po))"
    using h eq by simp_all
  ultimately show "b \<le> b'"
    by (auto simp: max_def min_def)
qed

theorem calculateTokenBurn_clamped_witness:
  "getTWAPPrice (defaultOracle [\<lparr>price = 1/10, timestamp = 0\<rparr>]) 0 = Inr (1/10) \<and>
   (0::real) < 1/10 \<and>
   burnFloor (defaultOracle [\<lparr>price = 1/10, timestamp = 0\<rparr>]) \<le>
     burnCeiling (defaultOracle [\<lparr>price = 1/10, timestamp = 0\<rparr>]) \<and>
   calculateTokenBurn (defaultOracle [\<lparr>price = 1/10, timestamp = 0\<rparr>]) 0 (1/1000) = Inr (1/20) \<and>
   calculateTokenBurn (defaultOracle [\<lparr>price = 1/10, timestamp = 0\<rparr>]) 0 (2/100) = Inr (1/5) \<and>
   calculateTokenBurn (defaultOracle [\<lparr>price = 1/10, timestamp = 0\<rparr>]) 0 1000 = Inr 50"
proof -
  have p: "getTWAPPrice (defaultOracle [\<lparr>price = 1/10, timestamp = 0\<rparr>]) 0 = Inr (1/10)"
    by (simp add: getTWAPPrice_def relevantPrices_def windowMs_def defaultOracle_def)
  have pos: "(0::real) < 1/10" by simp
  have le: "burnFloor (defaultOracle [\<lparr>price = 1/10, timestamp = 0\<rparr>]) \<le>
     burnCeiling (defaultOracle [\<lparr>price = 1/10, timestamp = 0\<rparr>])"
    by (simp add: defaultOracle_def)
  have a: "calculateTokenBurn (defaultOracle [\<lparr>price = 1/10, timestamp = 0\<rparr>]) 0 (1/1000) = Inr (1/20)"
    using calculateTokenBurn_clamped [OF p pos, of "1/1000", THEN conjunct1]
    by (simp add: defaultOracle_def)
  have b: "calculateTokenBurn (defaultOracle [\<lparr>price = 1/10, timestamp = 0\<rparr>]) 0 (2/100) = Inr (1/5)"
    using calculateTokenBurn_clamped [OF p pos, of "2/100", THEN conjunct1]
    by (simp add: defaultOracle_def)
  have c: "calculateTokenBurn (defaultOracle [\<lparr>price = 1/10, timestamp = 0\<rparr>]) 0 1000 = Inr 50"
    using calculateTokenBurn_clamped [OF p pos, of 1000, THEN conjunct1]
    by (simp add: defaultOracle_def)
  from p pos le a b c show ?thesis by blast
qed

subsection \<open>Facts about the balance ledger\<close>


lemma replaceBalance_mem: "b \<in> set (replaceBalance b xs)"
  by (induction xs) auto

















subsection \<open>Deposits and replayed transaction ids\<close>

lemma find_replaceBalance:
  "walletAddress b = w \<Longrightarrow> find (\<lambda>x. walletAddress x = w) (replaceBalance b xs) = Some b"
  by (induction xs) auto

lemma findOne_address: "findOne s w = Some b \<Longrightarrow> walletAddress b = w"
  by (auto simp: findOne_def find_Some_iff)

lemma saveBalance_Inr:
  assumes "saveBalance s now b = Inr (b', s')"
  shows "b' = b\<lparr>lastUpdated := now\<rparr>" and "findOne s' (walletAddress b) = Some b'"
    and "b' \<in> set (tokenBalances s')"
  using assms
  by (auto simp: saveBalance_def Let_def findOne_def find_replaceBalance replaceBalance_mem
      split: if_splits)

lemma getBalance_Inr:
  assumes "getBalance s now w = (Inr b, s1)"
  shows "walletAddress b = w \<and> findOne s1 w = Some b \<and>
      currentBalance b = currentOf s w \<and> depositedAmount b = depositedOf s w"
proof (cases "findOne s w")
  case (Some b0)
  with assms show ?thesis
    by (auto simp: getBalance_def currentOf_def depositedOf_def dest: findOne_address)
next
  case None
  let ?z = "\<lparr>walletAddress = w, depositedAmount = 0, consumedAmount = 0,
             currentBalance = 0, lastUpdated = now, transactions = []\<rparr>"
  from None assms have sv: "saveBalance s now ?z = Inr (b, s1)"
    by (auto simp: getBalance_def split: sum.splits)
  from saveBalance_Inr [OF sv] None show ?thesis
    by (simp add: currentOf_def depositedOf_def)
qed

lemma recordDeposit_Inr:
  assumes "recordDeposit s now w amt h = (Inr b, s2)"
  shows "findOne s2 w = Some b" and "currentBalance b = currentOf s w + amt"
    and "depositedAmount b = depositedOf s w + amt" and "existingTransaction s2 h"
proof -
  obtain r s1 where g: "getBalance s now w = (r, s1)" by (cases "getBalance s now w")
  with assms obtain b0 where r: "r = Inr b0"
    by (cases r) (auto simp: recordDeposit_def)
  let ?b = "b0\<lparr>depositedAmount := depositedAmount b0 + amt,
                currentBalance := currentBalance b0 + amt,
                transactions := transactions b0 @
                  [\<lparr>txType = deposit, amount = amt, txHash = Some h,
                    txTimestamp = now, metadata = None\<rparr>]\<rparr>"
  from assms g r have sv: "saveBalance s1 now ?b = Inr (b, s2)"
    by (auto simp: recordDeposit_def split: sum.splits)
  note gb = getBalance_Inr [OF g [unfolded r]]
  note sb = saveBalance_Inr [OF sv]
  from sb(2) gb show "findOne s2 w = Some b" by simp
  from sb(1) gb show "currentBalance b = currentOf s w + amt" by simp
  from sb(1) gb show "depositedAmount b = depositedOf s w + amt" by simp
  from sb(1) have "list_ex (\<lambda>t. txHash t = Some h) (transactions b)"
    by (simp add: list_ex_iff)
  with sb(3) show "existingTransaction s2 h"
    by (auto simp: existingTransaction_def list_ex_iff)
qed

lemma exampleVerification:
  "verifyDepositTransaction exampleChain ''T1'' ''W'' (Some 10) (Some ''MINT'') None =
     \<lparr>isValid = True, actualAmount = Some 10, verror = None\<rparr>"
  by (simp add: verifyDepositTransaction_def verifyBody_def exampleChain_def exampleTransfer_def
      executionError_def findTransfer_def orElse_def truthy_def nullish_def supplied_def
      parsedTransferAmount_def checkTransfer_def tolerance_def)

lemma exampleDeposit:
  "depositRoute exampleChain (Some ''MINT'') (initialSystem exampleOracle) 1 exampleBody =
     (Success 10 10, depositedState)"
  by (simp add: depositRoute_def exampleBody_def supplied_def truthy_def exampleVerification
      verifiedAmount_def existingTransaction_def initialSystem_def recordDeposit_def
      getBalance_def findOne_def saveBalance_def validTokenBalance_def Let_def
      depositedState_def)

text \<open>
  C2, as stated, fails: \<^const>\<open>recordDeposit\<close> makes no check of the transaction id. On
  a ledger where wallet \<open>W\<close> already holds a deposit entry for \<open>T1\<close>, a second
  \<^const>\<open>recordDeposit\<close> for \<open>T1\<close> succeeds and the balance becomes 20.
\<close>

theorem recordDeposit_replay_counterexample:
  "existingTransaction depositedState ''T1'' \<and>
   fst (recordDeposit depositedState 2 ''W'' 10 ''T1'') =
     Inr \<lparr>walletAddress = ''W'', depositedAmount = 20, consumedAmount = 0, currentBalance = 20,
          lastUpdated = 2,
          transactions =
            [\<lparr>txType = deposit, amount = 10, txHash = Some ''T1'', txTimestamp = 1,
              metadata = None\<rparr>,
             \<lparr>txType = deposit, amount = 10, txHash = Some ''T1'', txTimestamp = 2,
              metadata = None\<rparr>]\<rparr>"
  by (simp add: existingTransaction_def depositedState_def recordDeposit_def getBalance_def
      findOne_def saveBalance_def validTokenBalance_def Let_def)

text \<open>
  C2, amended. The duplicate check is made by the deposit route before it calls
  \<^const>\<open>recordDeposit\<close>: a request whose transaction id already appears in some wallet's
  log is answered with a 400 (already processed, or an earlier rejection) and leaves the
  whole state unchanged. A request that succeeds credits the verified amount once, and
  every later request with the same transaction id is rejected without a change.
\<close>

theorem depositRoute_rejects_replay:
  fixes body :: depositBody
  shows
  "(existingTransaction s h \<and> bodyTxHash body = Some h \<longrightarrow>
      snd (depositRoute ch envMint s now body) = s \<and>
      (fst (depositRoute ch envMint s now body) = AlreadyProcessed h \<or>
       fst (depositRoute ch envMint s now body) = MissingFields \<or>
       (\<exists>e. fst (depositRoute ch envMint s now body) = VerificationRejected e))) \<and>
   (depositRoute ch envMint s now body = (Success c d, s1) \<and>
    bodyWalletAddress body = Some w \<and> bodyAmount body = Some amt \<and> bodyTxHash body = Some h \<longrightarrow>
      \<not> existingTransaction s h \<and> existingTransaction s1 h \<and>
      c = currentOf s w + verifiedAmount (verifyDepositTransaction ch h w (Some amt) envMint None) amt \<and>
      d = depositedOf s w + verifiedAmount (verifyDepositTransaction ch h w (Some amt) envMint None) amt \<and>
      currentOf s1 w = c \<and> depositedOf s1 w = d \<and>
      (\<forall>ch' envMint' now' (body'::depositBody). bodyTxHash body' = Some h \<longrightarrow>
         snd (depositRoute ch' envMint' s1 now' body') = s1 \<and>
         (\<forall>c' d'. fst (depositRoute ch' envMint' s1 now' body') \<noteq> Success c' d')))"
proof -
  have replay: "snd (depositRoute ch envMint s now body) = s \<and>
      (fst (depositRoute ch envMint s now body) = AlreadyProcessed h \<or>
       fst (depositRoute ch envMint s now body) = MissingFields \<or>
       (\<exists>e. fst (depositRoute ch envMint s now body) = VerificationRejected e))"
    if "existingTransaction s h" and "bodyTxHash body = Some h"
    for s h and body :: depositBody and ch envMint now
    using that
    by (auto simp: depositRoute_def Let_def supplied_def split: option.splits if_splits)
  have first: "\<not> existingTransaction s h \<and> existingTransaction s1 h \<and>
      c = currentOf s w + verifiedAmount (verifyDepositTransaction ch h w (Some amt) envMint None) amt \<and>
      d = depositedOf s w + verifiedAmount (verifyDepositTransaction ch h w (Some amt) envMint None) amt \<and>
      currentOf s1 w = c \<and> depositedOf s1 w = d"
    if ok: "depositRoute ch envMint s now body = (Success c d, s1)"
      and body: "bodyWalletAddress body = Some w" "bodyAmount body = Some amt"
        "bodyTxHash body = Some h"
  proof -
    let ?v = "verifyDepositTransaction ch h w (Some amt) envMint None"
    from ok body have ne: "\<not> existingTransaction s h"
      by (auto simp: depositRoute_def Let_def supplied_def split: option.splits if_splits)
    from ok body ne obtain b where
      rd: "recordDeposit s now w (verifiedAmount ?v amt) h = (Inr b, s1)"
      and cd: "c = currentBalance b" "d = depositedAmount b"
      by (auto simp: depositRoute_def Let_def supplied_def
          split: option.splits if_splits prod.splits sum.splits)
    from recordDeposit_Inr [OF rd] cd ne show ?thesis
      by (simp add: currentOf_def depositedOf_def)
  qed
  show ?thesis
  proof (intro conjI impI)
    assume "existingTransaction s h \<and> bodyTxHash body = Some h"
    then show "snd (depositRoute ch envMint s now body) = s"
      and "fst (depositRoute ch envMint s now body) = AlreadyProcessed h \<or>
       fst (depositRoute ch envMint s now body) = MissingFields \<or>
       (\<exists>e. fst (depositRoute ch envMint s now body) = VerificationRejected e)"
      using replay by blast+
  next
    assume h: "depositRoute ch envMint s now body = (Success c d, s1) \<and>
      bodyWalletAddress body = Some w \<and> bodyAmount body = Some amt \<and> bodyTxHash body = Some h"
    with first show "\<not> existingTransaction s h" "existingTransaction s1 h"
      "c = currentOf s w + verifiedAmount (verifyDepositTransaction ch h w (Some amt) envMint None) amt"
      "d = depositedOf s w + verifiedAmount (verifyDepositTransaction ch h w (Some amt) envMint None) amt"
      "currentOf s1 w = c" "depositedOf s1 w = d"
      by blast+
    from h first have ex: "existingTransaction s1 h" by blast
    show "\<forall>ch' envMint' now' (body'::depositBody). bodyTxHash body' = Some h \<longrightarrow>
         snd (depositRoute ch' envMint' s1 now' body') = s1 \<and>
         (\<forall>c' d'. fst (depositRoute ch' envMint' s1 now' body') \<noteq> Success c' d')"
    proof (intro allI impI)
      fix ch' envMint' now' and body' :: depositBody
      assume "bodyTxHash body' = Some h"
      from replay [OF ex this, of ch' envMint' now']
      show "snd (depositRoute ch' envMint' s1 now' body') = s1 \<and>
         (\<forall>c' d'. fst (depositRoute ch' envMint' s1 now' body') \<noteq> Success c' d')"
        by auto
    qed
  qed
qed

theorem depositRoute_rejects_replay_witness:
  "depositRoute exampleChain (Some ''MINT'') (initialSystem exampleOracle) 1 exampleBody =
     (Success 10 10, depositedState) \<and>
   bodyWalletAddress exampleBody = Some ''W'' \<and> bodyAmount exampleBody = Some 10 \<and>
   bodyTxHash exampleBody = Some ''T1'' \<and>
   existingTransaction depositedState ''T1'' \<and>
   currentOf depositedState ''W'' = 10 \<and>
   snd (depositRoute exampleChain (Some ''MINT'') depositedState 2 exampleBody) = depositedState \<and>
   fst (depositRoute exampleChain (Some ''MINT'') depositedState 2 exampleBody) =
     AlreadyProcessed ''T1''"
proof -
  note first = depositRoute_rejects_replay
    [of "initialSystem exampleOracle" "''T1''" exampleBody exampleChain "Some ''MINT''" 1 10 10
       depositedState "''W''" 10, THEN conjunct2]
  note again = depositRoute_rejects_replay
    [of depositedState "''T1''" exampleBody exampleChain "Some ''MINT''" 2, THEN conjunct1]
  have body: "bodyWalletAddress exampleBody = Some ''W''" "bodyAmount exampleBody = Some 10"
    "bodyTxHash exampleBody = Some ''T1''"
    by (simp_all add: exampleBody_def)
  from first exampleDeposit body
  have ex: "existingTransaction depositedState ''T1''"
    and cur: "currentOf depositedState ''W'' = 10"
    by blast+
  from again ex body
  have unchanged:
    "snd (depositRoute exampleChain (Some ''MINT'') depositedState 2 exampleBody) = depositedState"
    by blast
  have resp: "fst (depositRoute exampleChain (Some ''MINT'') depositedState 2 exampleBody) =
     AlreadyProcessed ''T1''"
    using ex by (simp add: depositRoute_def exampleBody_def supplied_def truthy_def
        exampleVerification)
  from exampleDeposit body ex cur unchanged resp show ?thesis
    by simp
qed

subsection \<open>Debits\<close>

text \<open>
  What \<^const>\<open>deductTokens\<close> does keep: it fails with \<^const>\<open>InsufficientBalance\<close>
  exactly when the balance is below the amount, and then neither the wallet nor the
  usage records change; when it returns, the wallet is debited, one usage entry and one
  unsettled usage record with the current TWAP price are appended, and the new balance is
  not negative.
\<close>

lemma getBalance_view:
  assumes "w \<noteq> []"
  shows "\<exists>b s1. getBalance s now w = (Inr b, s1) \<and> walletAddress b = w \<and>
           walletView s w = (depositedAmount b, consumedAmount b, currentBalance b, transactions b) \<and>
           walletView s1 w = walletView s w \<and> findOne s1 w = Some b \<and>
           usageRecords s1 = usageRecords s \<and> priceOracle s1 = priceOracle s"
proof (cases "findOne s w")
  case (Some b)
  then show ?thesis
    by (auto simp: getBalance_def walletView_def dest: findOne_address)
next
  case None
  with assms show ?thesis
    by (simp add: getBalance_def saveBalance_def validTokenBalance_def Let_def walletView_def
        findOne_def find_replaceBalance)
qed

lemma deductTokens_rejected:
  assumes "w \<noteq> []"
  shows "(fst (deductTokens s now w amt rt usd) = Inl InsufficientBalance \<longleftrightarrow>
            fst (snd (snd (walletView s w))) < amt) \<and>
         (fst (snd (snd (walletView s w))) < amt \<longrightarrow>
            walletView (snd (deductTokens s now w amt rt usd)) w = walletView s w \<and>
            usageRecords (snd (deductTokens s now w amt rt usd)) = usageRecords s)"
proof -
  from getBalance_view [OF assms, of s now] obtain b s1 where
    g: "getBalance s now w = (Inr b, s1)" and
    v: "walletView s w = (depositedAmount b, consumedAmount b, currentBalance b, transactions b)" and
    v1: "walletView s1 w = walletView s w" and u1: "usageRecords s1 = usageRecords s"
    by blast
  show ?thesis
  proof (cases "currentBalance b < amt")
    case True
    with g v v1 u1 show ?thesis by (simp add: deductTokens_def)
  next
    case False
    with g have "fst (deductTokens s now w amt rt usd) \<noteq> Inl InsufficientBalance"
      by (auto simp: deductTokens_def saveBalance_def getTWAPPrice_def createUsageRecord_def
          Let_def split: sum.splits if_splits prod.splits)
    with False v show ?thesis by simp
  qed
qed

lemma deductTokens_success:
  assumes "w \<noteq> []" and "deductTokens s now w amt rt usd = (Inr b, s')"
    and "walletView s w = (d, c, cur, entries)"
  shows "amt \<le> cur \<and> 0 \<le> cur - amt \<and>
         walletView s' w =
           (d, c + amt, cur - amt,
            entries @ [\<lparr>txType = usage, amount = - amt, txHash = None, txTimestamp = now,
                    metadata = Some (rt, usd)\<rparr>]) \<and>
         (\<exists>tp. getTWAPPrice (priceOracle s) now = Inr tp \<and>
            usageRecords s' = usageRecords s @
              [\<lparr>rid = freshId (usageRecords s), rWalletAddress = w, requestType = rt,
                usdCost = usd, tokenPrice = tp, tokensBurned = amt, rTimestamp = now,
                settled = False, rTxHash = None\<rparr>])"
proof -
  from getBalance_view [OF assms(1), of s now] obtain b0 s1 where
    g: "getBalance s now w = (Inr b0, s1)" and a0: "walletAddress b0 = w" and
    v: "walletView s w = (depositedAmount b0, consumedAmount b0, currentBalance b0, transactions b0)" and
    u1: "usageRecords s1 = usageRecords s" and p1: "priceOracle s1 = priceOracle s"
    by blast
  let ?b = "b0\<lparr>consumedAmount := consumedAmount b0 + amt,
                currentBalance := currentBalance b0 - amt,
                transactions := transactions b0 @
                  [\<lparr>txType = usage, amount = - amt, txHash = None,
                    txTimestamp = now, metadata = Some (rt, usd)\<rparr>]\<rparr>"
  from assms(2) g have enough: "\<not> currentBalance b0 < amt"
    by (auto simp: deductTokens_def split: if_splits)
  from assms(2) g enough obtain s2 tp where
    sv: "saveBalance s1 now ?b = Inr (b, s2)" and
    tw: "getTWAPPrice (priceOracle s2) now = Inr tp" and
    cr: "createUsageRecord s2 now w rt usd tp amt = Inr s'"
    by (auto simp: deductTokens_def split: sum.splits prod.splits)
  from sv have valid: "validTokenBalance ?b" and b: "b = ?b\<lparr>lastUpdated := now\<rparr>"
    and s2: "s2 = s1\<lparr>tokenBalances := replaceBalance b (tokenBalances s1)\<rparr>"
    by (auto simp: saveBalance_def Let_def split: if_splits)
  from cr have s': "s' = s2\<lparr>usageRecords := usageRecords s2 @
      [\<lparr>rid = freshId (usageRecords s2), rWalletAddress = w, requestType = rt,
        usdCost = usd, tokenPrice = tp, tokensBurned = amt, rTimestamp = now,
        settled = False, rTxHash = None\<rparr>]\<rparr>"
    by (auto simp: createUsageRecord_def Let_def split: if_splits)
  from saveBalance_Inr(2) [OF sv] a0 have f2: "findOne s2 w = Some b" by simp
  with s' have f': "findOne s' w = Some b" by (simp add: findOne_def)
  from v assms(3) have dc: "d = depositedAmount b0" "c = consumedAmount b0"
    "cur = currentBalance b0" "entries = transactions b0"
    by simp_all
  from valid have "0 \<le> currentBalance b0 - amt"
    by (simp add: validTokenBalance_def)
  with enough dc f' b tw s' s2 u1 p1 show ?thesis
    by (simp add: walletView_def)
qed

text \<open>
  C3 at a failing input. Wallet \<open>W\<close> holds 10 tokens and the price cache is empty.
  \<^const>\<open>deductTokens\<close> for 1 token saves the debit (consumed 1, balance 9, a usage entry
  in the log) and then fails with \<^const>\<open>NoPriceData\<close>, because the TWAP is read only
  after the balance was saved; no usage record is created.
\<close>

theorem deductTokens_debits_without_usage_record:
  "currentOf noPriceState ''W'' = 10 \<and>
   fst (deductTokens noPriceState 2 ''W'' 1 chat (1/50)) = Inl NoPriceData \<and>
   tokenBalances (snd (deductTokens noPriceState 2 ''W'' 1 chat (1/50))) =
     [\<lparr>walletAddress = ''W'', depositedAmount = 10, consumedAmount = 1, currentBalance = 9,
       lastUpdated = 2,
       transactions =
         [\<lparr>txType = deposit, amount = 10, txHash = Some ''T1'', txTimestamp = 1,
           metadata = None\<rparr>,
          \<lparr>txType = usage, amount = - 1, txHash = None, txTimestamp = 2,
           metadata = Some (chat, 1/50)\<rparr>]\<rparr>] \<and>
   usageRecords (snd (deductTokens noPriceState 2 ''W'' 1 chat (1/50))) = []"
  by (simp add: noPriceState_def depositedState_def currentOf_def deductTokens_def
      getBalance_def findOne_def saveBalance_def validTokenBalance_def Let_def
      getTWAPPrice_def defaultOracle_def)

subsection \<open>Facts about the settlement service\<close>

lemma foldl_tokensBurned:
  "foldl (\<lambda>sum record. sum + tokensBurned record) a rs = a + sum_list (map tokensBurned rs)"
  by (induction rs arbitrary: a) simp_all

lemma totalTokens_sum: "totalTokens rs = sum_list (map tokensBurned rs)"
  by (simp add: totalTokens_def foldl_tokensBurned)


lemma getUnsettledRecords_flag:
  "getUnsettledRecords (s\<lparr>isSettling := f\<rparr>) n = getUnsettledRecords s n"
  by (simp add: getUnsettledRecords_def)

lemma executeBatchSettlement_idle:
  assumes "\<not> isSettling s"
  shows "executeBatchSettlement svc ch s =
    (let fetched = getUnsettledRecords s 100 in
     if fetched = [] then (Inr (), s)
     else case executeOnChainSettlement svc ch (totalTokens fetched / 2) (totalTokens fetched / 2) of
            Inl e \<Rightarrow> (Inl e, s)
          | Inr (h, tx) \<Rightarrow>
              (Inr (), markAsSettled (s\<lparr>confirmed := confirmed s @ [(h, tx)]\<rparr>) (map rid fetched) h))"
proof -
  have s: "s\<lparr>isSettling := False\<rparr> = s"
    using assms by simp
  have "(markAsSettled (s\<lparr>isSettling := True, confirmed := c\<rparr>) ids h)\<lparr>isSettling := False\<rparr> =
      markAsSettled (s\<lparr>confirmed := c\<rparr>) ids h" for c ids h
    using assms by (simp add: markAsSettled_def)
  with assms s show ?thesis
    by (simp add: executeBatchSettlement_def settlementRun_def getUnsettledRecords_flag Let_def
        split: sum.splits prod.splits)
qed


lemma examplePending:
  "getUnsettledRecords pendingState 100 = [exampleRecord 0 50 2, exampleRecord 1 50 3]"
  by (simp add: getUnsettledRecords_def pendingState_def exampleRecord_def)

lemma exampleOnChain:
  "executeOnChainSettlement exampleService exampleChain 50 50 =
     Inr (''SIG1'', [BurnChecked 50000000000 9, TransferChecked 50000000000 9])"
  by (simp add: executeOnChainSettlement_def onChainBody_def exampleService_def exampleChain_def
      mintDecimals_def settlementInstructions_def Let_def)







subsection \<open>Threshold-triggered settlement\<close>

lemma sum_list_insort_key:
  "sum_list (map g (insort_key f x xs)) = g x + sum_list (map g xs)"
  for g :: "'a \<Rightarrow> real"
  by (induction xs) simp_all

lemma sum_list_sort_key:
  "sum_list (map g (sort_key f xs)) = sum_list (map g xs)"
  for g :: "'a \<Rightarrow> real"
  by (induction xs) (simp_all add: sum_list_insort_key)

lemma getUnsettledRecords_all:
  assumes "length (filter (\<lambda>r. \<not> settled r) (usageRecords s)) \<le> n"
  shows "sum_list (map tokensBurned (getUnsettledRecords s n)) =
         sum_list (map tokensBurned (filter (\<lambda>r. \<not> settled r) (usageRecords s)))"
  using assms by (simp add: getUnsettledRecords_def sum_list_sort_key)

lemma manyUnsettled:
  "n \<le> 1001 \<Longrightarrow> getUnsettledRecords manyState n = map (\<lambda>i. exampleRecord i 1 2) [0..<n]"
proof -
  assume n: "n \<le> 1001"
  have f: "filter (\<lambda>r. \<not> settled r) (map (\<lambda>i. exampleRecord i 1 2) [0..<1001]) =
      map (\<lambda>i. exampleRecord i 1 2) [0..<1001]"
    by (simp add: filter_map o_def exampleRecord_def)
  have "map rTimestamp (map (\<lambda>i. exampleRecord i 1 2) [0..<1001]) = replicate 1001 2"
    by (simp add: o_def exampleRecord_def map_replicate_const)
  then have "sorted (map rTimestamp (map (\<lambda>i. exampleRecord i 1 2) [0..<1001]))"
    by (simp only: sorted_replicate)
  then have srt: "sort_key rTimestamp (map (\<lambda>i. exampleRecord i 1 2) [0..<1001]) =
      map (\<lambda>i. exampleRecord i 1 2) [0..<1001]"
    by (rule sort_key_id_if_sorted)
  from n have "take n [0..<1001] = [0..<n]"
    by simp
  with f srt show ?thesis
    by (simp add: getUnsettledRecords_def manyState_def take_map)
qed

lemma manyTotal: "sum_list (map tokensBurned (map (\<lambda>i. exampleRecord i 1 2) [0..<n])) = real n"
  by (simp add: o_def exampleRecord_def map_replicate_const sum_list_replicate)

text \<open>
  C9, as stated, fails when more than 1000 records are unsettled: the sum is taken over
  what \<^verbatim>\<open>getUnsettledRecords(1000)\<close> returns. With 1001 unsettled records of one token
  each and threshold 1001 the unsettled total meets the threshold, yet the function sums
  1000, returns false and leaves the state as it is.
\<close>

theorem checkAndSettleIfNeeded_cap_counterexample:
  "sum_list (map tokensBurned (filter (\<lambda>r. \<not> settled r) (usageRecords manyState))) = 1001 \<and>
   (1001::real) \<ge> 1001 \<and>
   checkAndSettleIfNeeded exampleService exampleChain manyState 1001 = (Inr False, manyState)"
proof -
  have "filter (\<lambda>r. \<not> settled r) (usageRecords manyState) =
      map (\<lambda>i. exampleRecord i 1 2) [0..<1001]"
    by (simp add: manyState_def filter_map o_def exampleRecord_def)
  then have "sum_list (map tokensBurned (filter (\<lambda>r. \<not> settled r) (usageRecords manyState))) =
      real 1001"
    by (simp only: manyTotal)
  then have all: "sum_list (map tokensBurned (filter (\<lambda>r. \<not> settled r) (usageRecords manyState))) = 1001"
    by simp
  have "getUnsettledRecords manyState 1000 = map (\<lambda>i. exampleRecord i 1 2) [0..<1000]"
    by (rule manyUnsettled) simp
  then have "totalTokens (getUnsettledRecords manyState 1000) = real 1000"
    by (simp only: totalTokens_sum manyTotal)
  then have "totalTokens (getUnsettledRecords manyState 1000) = 1000"
    by simp
  then have "checkAndSettleIfNeeded exampleService exampleChain manyState 1001 = (Inr False, manyState)"
    by (simp add: checkAndSettleIfNeeded_def)
  with all show ?thesis by simp
qed

text \<open>
  C9, amended. \<^const>\<open>checkAndSettleIfNeeded\<close> sums \<open>tokensBurned\<close> over the at most 1000
  oldest unsettled records (all of them when there are no more than 1000). Below the
  threshold it returns false and changes nothing. Otherwise it runs
  \<^const>\<open>executeBatchSettlement\<close> once, ends in the state that call ends in, returns true
  if the call returns and fails with its error if it fails.
\<close>

theorem checkAndSettleIfNeeded_spec:
  "(sum_list (map tokensBurned (getUnsettledRecords s 1000)) < threshold \<longrightarrow>
      checkAndSettleIfNeeded svc ch s threshold = (Inr False, s)) \<and>
   (sum_list (map tokensBurned (getUnsettledRecords s 1000)) \<ge> threshold \<longrightarrow>
      snd (checkAndSettleIfNeeded svc ch s threshold) = snd (executeBatchSettlement svc ch s) \<and>
      fst (checkAndSettleIfNeeded svc ch s threshold) =
        (case fst (executeBatchSettlement svc ch s) of Inl e \<Rightarrow> Inl e | Inr u \<Rightarrow> Inr True)) \<and>
   (fst (checkAndSettleIfNeeded svc ch s threshold) = Inr True \<longleftrightarrow>
      sum_list (map tokensBurned (getUnsettledRecords s 1000)) \<ge> threshold \<and>
      fst (executeBatchSettlement svc ch s) = Inr ()) \<and>
   (fst (checkAndSettleIfNeeded svc ch s threshold) = Inr False \<longleftrightarrow>
      sum_list (map tokensBurned (getUnsettledRecords s 1000)) < threshold) \<and>
   (length (filter (\<lambda>r. \<not> settled r) (usageRecords s)) \<le> 1000 \<longrightarrow>
      sum_list (map tokensBurned (getUnsettledRecords s 1000)) =
      sum_list (map tokensBurned (filter (\<lambda>r. \<not> settled r) (usageRecords s))))"
proof -
  obtain r s' where run: "executeBatchSettlement svc ch s = (r, s')"
    by (cases "executeBatchSettlement svc ch s")
  show ?thesis
  proof (cases "sum_list (map tokensBurned (getUnsettledRecords s 1000)) \<ge> threshold")
    case True
    with run show ?thesis
      by (cases r) (simp_all add: checkAndSettleIfNeeded_def totalTokens_sum getUnsettledRecords_all)
  next
    case False
    with run show ?thesis
      by (simp add: checkAndSettleIfNeeded_def totalTokens_sum getUnsettledRecords_all)
  qed
qed

theorem checkAndSettleIfNeeded_spec_witness:
  "sum_list (map tokensBurned (getUnsettledRecords pendingState 1000)) = 100 \<and>
   length (filter (\<lambda>r. \<not> settled r) (usageRecords pendingState)) \<le> 1000 \<and>
   checkAndSettleIfNeeded exampleService exampleChain pendingState 101 = (Inr False, pendingState) \<and>
   fst (checkAndSettleIfNeeded exampleService exampleChain pendingState 100) = Inr True \<and>
   snd (checkAndSettleIfNeeded exampleService exampleChain pendingState 100) =
     snd (executeBatchSettlement exampleService exampleChain pendingState)"
proof -
  have sum: "sum_list (map tokensBurned (getUnsettledRecords pendingState 1000)) = 100"
    by (simp add: getUnsettledRecords_def pendingState_def exampleRecord_def)
  have len: "length (filter (\<lambda>r. \<not> settled r) (usageRecords pendingState)) \<le> 1000"
    by (simp add: pendingState_def exampleRecord_def)
  have idle: "\<not> isSettling pendingState"
    by (simp add: pendingState_def)
  have ok: "fst (executeBatchSettlement exampleService exampleChain pendingState) = Inr ()"
    using idle by (simp add: executeBatchSettlement_idle examplePending totalTokens_sum
        exampleRecord_def exampleOnChain)
  note below = checkAndSettleIfNeeded_spec [of pendingState 101 exampleService exampleChain]
  note reach = checkAndSettleIfNeeded_spec [of pendingState 100 exampleService exampleChain]
  from below sum
  have a: "checkAndSettleIfNeeded exampleService exampleChain pendingState 101 = (Inr False, pendingState)"
    by simp
  from reach sum ok
  have b: "fst (checkAndSettleIfNeeded exampleService exampleChain pendingState 100) = Inr True"
    and c: "snd (checkAndSettleIfNeeded exampleService exampleChain pendingState 100) =
     snd (executeBatchSettlement exampleService exampleChain pendingState)"
    by simp_all
  from sum len a b c show ?thesis by blast
qed

subsection \<open>Facts about the deposit verifier\<close>

text \<open>
  What the two searches take for a transfer to the recipient. Among the parsed
  instructions: the first token-program \<^verbatim>\<open>transfer\<close> or \<^verbatim>\<open>transferChecked\<close> whose
  destination is the recipient. Among the snapshots: the first post-balance entry owned
  by the recipient, whatever its balance did; the amount is then the change of that
  balance and no authority is known.
\<close>

lemma findBalanceTransfer_None:
  "findBalanceTransfer recipient pre post = None \<longleftrightarrow>
     \<not> list_ex (\<lambda>balance. owner balance = Some recipient) post"
  by (induction post) simp_all

lemma findBalanceTransfer_Some:
  "findBalanceTransfer recipient pre post = Some f \<Longrightarrow>
     list_ex (\<lambda>balance. owner balance = Some recipient \<and>
        foundAmount f = uiAmountOrZero (uiAmount balance) - preBalanceOf pre (accountIndex balance)) post \<and>
     transferAuthority f = None"
  by (induction post) (auto split: if_splits)

lemma findParsedTransfer_None:
  "findParsedTransfer recipient is = None \<longleftrightarrow>
     \<not> list_ex (\<lambda>i. programId i = TOKEN_PROGRAM_ID \<and>
          (case parsed i of
             None \<Rightarrow> False
           | Some p \<Rightarrow>
               (parsedType p = ''transfer'' \<or> parsedType p = ''transferChecked'') \<and>
               orElse (destination (info p)) (toAccount (info p)) = Some recipient)) is"
  by (induction "is") (simp_all split: option.splits)

lemma findParsedTransfer_Some:
  "findParsedTransfer recipient is = Some f \<Longrightarrow>
     \<exists>i \<in> set is. \<exists>p. parsed i = Some p \<and> programId i = TOKEN_PROGRAM_ID \<and>
       (parsedType p = ''transfer'' \<or> parsedType p = ''transferChecked'') \<and>
       orElse (destination (info p)) (toAccount (info p)) = Some recipient \<and>
       foundAmount f = parsedTransferAmount (info p)"
proof (induction "is")
  case Nil
  then show ?case by simp
next
  case (Cons i rest)
  show ?case
  proof (cases "findParsedTransfer recipient (i # rest) = findParsedTransfer recipient rest")
    case True
    with Cons show ?thesis by auto
  next
    case False
    then obtain p where "parsed i = Some p" "programId i = TOKEN_PROGRAM_ID"
      "parsedType p = ''transfer'' \<or> parsedType p = ''transferChecked''"
      "orElse (destination (info p)) (toAccount (info p)) = Some recipient"
      by (auto split: option.splits if_splits)
    with Cons.prems show ?thesis by auto
  qed
qed



lemma checkTransfer_shape:
  "(isValid (checkTransfer f a m sd) \<longrightarrow>
      checkTransfer f a m sd = \<lparr>isValid = True, actualAmount = Some (foundAmount f), verror = None\<rparr>) \<and>
   (\<not> isValid (checkTransfer f a m sd) \<longrightarrow>
      (\<exists>e. checkTransfer f a m sd = invalid e))"
  by (simp add: checkTransfer_def invalid_def split: option.splits)

lemma verify_shape:
  "(isValid (verifyDepositTransaction ch h r a m sd) \<longrightarrow>
      verror (verifyDepositTransaction ch h r a m sd) = None \<and>
      actualAmount (verifyDepositTransaction ch h r a m sd) \<noteq> None) \<and>
   (\<not> isValid (verifyDepositTransaction ch h r a m sd) \<longrightarrow>
      verror (verifyDepositTransaction ch h r a m sd) \<noteq> None \<and>
      actualAmount (verifyDepositTransaction ch h r a m sd) = None)"
proof (cases "verifyBody ch h r a m sd")
  case (Inl msg)
  then show ?thesis by (simp add: verifyDepositTransaction_def invalid_def)
next
  case (Inr v)
  then have v: "verifyDepositTransaction ch h r a m sd = v"
    by (simp add: verifyDepositTransaction_def)
  from Inr have "(\<exists>e. v = invalid e) \<or> (\<exists>f. v = checkTransfer f a m sd)"
    by (auto simp: verifyBody_def split: rpc_result.splits option.splits if_splits)
  then show ?thesis
  proof
    assume "\<exists>e. v = invalid e"
    with v show ?thesis by (auto simp: invalid_def)
  next
    assume "\<exists>f. v = checkTransfer f a m sd"
    then obtain f where "v = checkTransfer f a m sd" ..
    with v checkTransfer_shape [of f a m sd] show ?thesis
      by (cases "isValid (checkTransfer f a m sd)") (auto simp: invalid_def)
  qed
qed

lemma exampleFound:
  "getParsedTransaction exampleChain ''T1'' = RpcTransaction exampleTransfer"
  "executionError exampleTransfer = None"
  "validPublicKey exampleChain ''W''"
  "findTransfer ''W'' exampleTransfer =
     Some \<lparr>foundAmount = 10, tokenMint = Some ''MINT'', transferAuthority = Some ''U''\<rparr>"
  by (simp_all add: exampleChain_def exampleTransfer_def executionError_def findTransfer_def
      orElse_def truthy_def nullish_def supplied_def parsedTransferAmount_def)



text \<open>
  C10. Whatever is thrown inside the \<^verbatim>\<open>try\<close> block (a failed RPC request, a malformed
  recipient address) comes back as \<open>isValid = False\<close> with a \<^const>\<open>VerificationFailed\<close>
  message; a result the block returns is passed on as it is. A result that is not valid
  always carries an error and no amount, a valid one no error.
\<close>

theorem verifyDepositTransaction_total:
  "(\<forall>msg. getParsedTransaction ch h = RpcThrows msg \<longrightarrow>
      verifyDepositTransaction ch h recipient expectedAmount expectedTokenMint expectedSender =
        \<lparr>isValid = False, actualAmount = None, verror = Some (VerificationFailed msg)\<rparr>) \<and>
   (\<forall>tx. getParsedTransaction ch h = RpcTransaction tx \<and> executionError tx = None \<and>
         \<not> validPublicKey ch recipient \<longrightarrow>
      verifyDepositTransaction ch h recipient expectedAmount expectedTokenMint expectedSender =
        \<lparr>isValid = False, actualAmount = None,
         verror = Some (VerificationFailed ''Invalid public key input'')\<rparr>) \<and>
   (\<forall>msg. verifyBody ch h recipient expectedAmount expectedTokenMint expectedSender = Inl msg \<longrightarrow>
      verifyDepositTransaction ch h recipient expectedAmount expectedTokenMint expectedSender =
        \<lparr>isValid = False, actualAmount = None, verror = Some (VerificationFailed msg)\<rparr>) \<and>
   (\<forall>v. verifyBody ch h recipient expectedAmount expectedTokenMint expectedSender = Inr v \<longrightarrow>
      verifyDepositTransaction ch h recipient expectedAmount expectedTokenMint expectedSender = v) \<and>
   (isValid (verifyDepositTransaction ch h recipient expectedAmount expectedTokenMint expectedSender) \<longrightarrow>
      verror (verifyDepositTransaction ch h recipient expectedAmount expectedTokenMint expectedSender)
        = None) \<and>
   (\<not> isValid (verifyDepositTransaction ch h recipient expectedAmount expectedTokenMint expectedSender) \<longrightarrow>
      verror (verifyDepositTransaction ch h recipient expectedAmount expectedTokenMint expectedSender)
        \<noteq> None \<and>
      actualAmount (verifyDepositTransaction ch h recipient expectedAmount expectedTokenMint
                      expectedSender) = None)"
  using verify_shape [of ch h recipient expectedAmount expectedTokenMint expectedSender]
  by (simp add: verifyDepositTransaction_def verifyBody_def invalid_def)

theorem verifyDepositTransaction_total_witness:
  "getParsedTransaction throwingChain ''T1'' = RpcThrows ''429 Too Many Requests'' \<and>
   verifyDepositTransaction throwingChain ''T1'' ''W'' (Some 10) (Some ''MINT'') None =
     \<lparr>isValid = False, actualAmount = None,
      verror = Some (VerificationFailed ''429 Too Many Requests'')\<rparr> \<and>
   getParsedTransaction exampleChain ''T1'' = RpcTransaction exampleTransfer \<and>
   executionError exampleTransfer = None \<and> \<not> validPublicKey exampleChain [] \<and>
   verifyDepositTransaction exampleChain ''T1'' [] (Some 10) (Some ''MINT'') None =
     \<lparr>isValid = False, actualAmount = None,
      verror = Some (VerificationFailed ''Invalid public key input'')\<rparr>"
proof -
  have throws: "getParsedTransaction throwingChain ''T1'' = RpcThrows ''429 Too Many Requests''"
    by (simp add: throwingChain_def)
  have bad: "\<not> validPublicKey exampleChain []"
    by (simp add: exampleChain_def)
  have a: "verifyDepositTransaction throwingChain ''T1'' ''W'' (Some 10) (Some ''MINT'') None =
     \<lparr>isValid = False, actualAmount = None,
      verror = Some (VerificationFailed ''429 Too Many Requests'')\<rparr>"
    using verifyDepositTransaction_total
      [of throwingChain "''T1''" "''W''" "Some 10" "Some ''MINT''" None, THEN conjunct1] throws
    by blast
  have b: "verifyDepositTransaction exampleChain ''T1'' [] (Some 10) (Some ''MINT'') None =
     \<lparr>isValid = False, actualAmount = None,
      verror = Some (VerificationFailed ''Invalid public key input'')\<rparr>"
    using verifyDepositTransaction_total
      [of exampleChain "''T1''" "[]" "Some 10" "Some ''MINT''" None, THEN conjunct2, THEN conjunct1]
      exampleFound(1,2) bad
    by blast
  from throws bad a b exampleFound(1,2) show ?thesis
    by blast
qed

end
